theory Spec2Isabelle
  imports Main "HOL-Library.Word"
begin

section \<open>The replay writer \<open>SlpFileWriter\<close>\<close>

text \<open>
  A shallow embedding of the class \<open>SlpFileWriter\<close>: the object's fields are a record,
  every method is a function from the object to the updated object, and a JavaScript
  exception is the left summand of the result. An exception leaves the object as it was
  at the point of the throw, so every fallible method returns the object together with
  its outcome.

  The collaborators the class only calls (the file write stream, the relay sockets, the
  OBS connection, the timers, the file-state callback, the file system patch) are modelled
  as objects that record the calls made on them, in order.
\<close>

subsection \<open>Bytes, buffers and data views\<close>

type_synonym byte = "8 word"

datatype error = RangeError | TypeError

text \<open>
  A \<open>DataView\<close> created as \<open>new DataView(data.buffer, index)\<close> sees the bytes of the
  buffer from \<open>index\<close> to its end. Reads beyond the end raise \<open>RangeError\<close>;
  multi-byte reads are big-endian.
\<close>

type_synonym dataView = "byte list"

definition getUint8 :: "dataView \<Rightarrow> nat \<Rightarrow> error + byte" where
  "getUint8 dv i = (if i < length dv then Inr (dv ! i) else Inl RangeError)"

definition getUint16 :: "dataView \<Rightarrow> nat \<Rightarrow> error + nat" where
  "getUint16 dv i =
     (if i + 2 \<le> length dv then Inr (unat (dv ! i) * 256 + unat (dv ! (i + 1)))
      else Inl RangeError)"

definition getUint32 :: "dataView \<Rightarrow> nat \<Rightarrow> error + nat" where
  "getUint32 dv i =
     (if i + 4 \<le> length dv
      then Inr (((unat (dv ! i) * 256 + unat (dv ! (i + 1))) * 256
                   + unat (dv ! (i + 2))) * 256 + unat (dv ! (i + 3)))
      else Inl RangeError)"

definition getInt32 :: "dataView \<Rightarrow> nat \<Rightarrow> error + int" where
  "getInt32 dv i =
     (case getUint32 dv i of
        Inl e \<Rightarrow> Inl e
      | Inr u \<Rightarrow> Inr (if u < 2 ^ 31 then int u else int u - 2 ^ 32))"

definition be32 :: "nat \<Rightarrow> byte list" where
  "be32 n = [of_nat (n div 2 ^ 24), of_nat (n div 2 ^ 16), of_nat (n div 2 ^ 8), of_nat n]"

text \<open>\<open>Buffer.writeUInt32BE\<close> and \<open>Buffer.writeInt32BE\<close> raise on a value out of range.\<close>

definition createUInt32Buffer :: "nat \<Rightarrow> error + byte list" where
  "createUInt32Buffer number =
     (if number < 2 ^ 32 then Inr (be32 number) else Inl RangeError)"

definition createInt32Buffer :: "int \<Rightarrow> error + byte list" where
  "createInt32Buffer number =
     (if - (2 ^ 31) \<le> number \<and> number < 2 ^ 31
      then Inr (be32 (nat (number mod 2 ^ 32)))
      else Inl RangeError)"

text \<open>\<open>Buffer.from(str)\<close> on text of one byte per character; \<open>Buffer.from([n])\<close>
  keeps the low eight bits of \<open>n\<close>.\<close>

definition bufferFrom :: "string \<Rightarrow> byte list" where
  "bufferFrom str = map (\<lambda>c. of_nat (of_char c)) str"

definition bufferFromNumber :: "nat \<Rightarrow> byte list" where
  "bufferFromNumber n = [of_nat n]"

fun decimal :: "nat \<Rightarrow> string" where
  "decimal n =
     (if n < 10 then [char_of (48 + n)]
      else decimal (n div 10) @ [char_of (48 + n mod 10)])"

declare decimal.simps [simp del]

subsection \<open>The object's fields\<close>

text \<open>The two renderings of a \<open>moment\<close> that the class uses, and its ISO string.\<close>

record moment =
  isoString :: string
  formatYMD :: string
  formatHMS :: string

record metadata =
  startTime :: "moment option"
  lastFrame :: int
  players :: "byte \<rightharpoonup> (byte \<rightharpoonup> nat)"

text \<open>
  The write stream records what was submitted to it: the header, every frame (its command
  byte, the payload length passed to \<open>writeCommand\<close>, and the payload bytes), the footer,
  and the call of \<open>end\<close>.
\<close>

datatype streamCall =
    WriteHeader "byte list"
  | WriteFrame byte nat "byte list"
  | WriteFooter "byte list"
  | EndStream

record stream =
  streamPath :: string
  streamCalls :: "streamCall list"

record currentFile =
  payloadSizes :: "byte \<rightharpoonup> nat"
  previousBuffer :: "byte list"
  fullBuffer :: "byte list"
  path :: "string option"
  writeStream :: "stream option"
  bytesWritten :: nat
  metadata :: metadata

record statusOutput =
  status :: bool
  timeout :: "nat option"

record socket =
  socketId :: nat
  socketWrites :: "byte list list"

record client =
  socket :: socket
  readPos :: nat

text \<open>A frame handed to \<open>writeCommand\<close>: the command byte and the payload slice.\<close>

record frame =
  frameCommand :: byte
  framePayload :: "byte list"

text \<open>
  Besides the fields of the class, the record holds the environment the class talks to:
  the clock read by \<open>moment()\<close>, the requests sent to OBS, the timer armed by
  \<open>setTimeout\<close>, the number of stream-end callbacks not yet run, the number of calls of
  \<open>onFileStateChange\<close>, the positioned writes of \<open>fs.writeSync\<close>, and the frames
  dispatched so far (a history variable).
\<close>

record writer =
  folderPath :: string
  consoleNick :: string
  obsSourceName :: string
  obsPairs :: "(string \<times> string) list"
  currentFile :: currentFile
  statusOutput :: statusOutput
  clients :: "client list"
  clock :: moment
  obsRequests :: "(string \<times> string \<times> bool) list"
  armedTimer :: "nat option"
  pendingEnds :: nat
  fileStateChanges :: nat
  patches :: "(string \<times> nat \<times> byte list) list"
  emitted :: "frame list"

definition CMD_RECEIVE_COMMANDS :: byte where "CMD_RECEIVE_COMMANDS = 0x35"
definition CMD_GAME_START :: byte where "CMD_GAME_START = 0x36"
definition CMD_RECEIVE_POST_FRAME_UPDATE :: byte where "CMD_RECEIVE_POST_FRAME_UPDATE = 0x38"
definition CMD_RECEIVE_GAME_END :: byte where "CMD_RECEIVE_GAME_END = 0x39"

definition getClearedCurrentFile :: currentFile where
  "getClearedCurrentFile =
     \<lparr> payloadSizes = Map.empty,
       previousBuffer = [],
       fullBuffer = [],
       path = None,
       writeStream = None,
       bytesWritten = 0,
       metadata = \<lparr> startTime = None, lastFrame = - 124, players = Map.empty \<rparr> \<rparr>"

text \<open>The constructor, with relaying enabled and no client connected yet.\<close>

definition newWriter :: "string \<Rightarrow> string \<Rightarrow> string \<Rightarrow> moment \<Rightarrow> writer" where
  "newWriter folder nick source m =
     \<lparr> folderPath = folder,
       consoleNick = nick,
       obsSourceName = source,
       obsPairs = [],
       currentFile = getClearedCurrentFile,
       statusOutput = \<lparr> status = False, timeout = None \<rparr>,
       clients = [],
       clock = m,
       obsRequests = [],
       armedTimer = None,
       pendingEnds = 0,
       fileStateChanges = 0,
       patches = [],
       emitted = [] \<rparr>"

subsection \<open>Relay clients\<close>

text \<open>The connection handler of \<open>manageRelay\<close> and its \<open>close\<close> listener.\<close>

definition clientConnected :: "nat \<Rightarrow> writer \<Rightarrow> writer" where
  "clientConnected sid w =
     w\<lparr>clients := clients w @
          [\<lparr> socket = \<lparr> socketId = sid, socketWrites = [] \<rparr>, readPos = 0 \<rparr>]\<rparr>"

definition clientClosed :: "nat \<Rightarrow> writer \<Rightarrow> writer" where
  "clientClosed sid w =
     w\<lparr>clients := filter (\<lambda>c. socketId (socket c) \<noteq> sid) (clients w)\<rparr>"

subsection \<open>The status indicator\<close>

definition setStatus :: "bool \<Rightarrow> writer \<Rightarrow> writer" where
  "setStatus v w =
     w\<lparr>statusOutput := (statusOutput w)\<lparr>status := v\<rparr>,
       obsRequests := obsRequests w @
          map (\<lambda>pair. (fst pair, obsSourceName w, v)) (obsPairs w)\<rparr>"

text \<open>
  The local function \<open>setTimer\<close> of \<open>handleStatusOutput\<close>: the timer held in
  \<open>statusOutput.timeout\<close> is cleared and a new one is armed, so at most the newest
  timer is pending.
\<close>

definition setTimer :: "nat \<Rightarrow> writer \<Rightarrow> writer" where
  "setTimer timeoutLength w =
     w\<lparr>statusOutput := (statusOutput w)\<lparr>timeout := Some timeoutLength\<rparr>,
       armedTimer := Some timeoutLength\<rparr>"

definition handleStatusOutput :: "nat \<Rightarrow> writer \<Rightarrow> writer" where
  "handleStatusOutput timeoutLength w =
     (if lastFrame (metadata (currentFile w)) < - 60 then w
      else if status (statusOutput w) then setTimer timeoutLength w
      else setTimer timeoutLength (setStatus True w))"

text \<open>The timer's callback.\<close>

definition timerFired :: "writer \<Rightarrow> writer" where
  "timerFired w =
     (case armedTimer w of
        None \<Rightarrow> w
      | Some t \<Rightarrow> setStatus False (w\<lparr>armedTimer := None\<rparr>))"

subsection \<open>Writing frames\<close>

definition streamWrite :: "streamCall \<Rightarrow> stream \<Rightarrow> stream" where
  "streamWrite c st = st\<lparr>streamCalls := streamCalls st @ [c]\<rparr>"

definition writeCommand :: "byte \<Rightarrow> byte list \<Rightarrow> nat \<Rightarrow> writer \<Rightarrow> writer" where
  "writeCommand command payloadPtr payloadLen w =
     (case writeStream (currentFile w) of
        None \<Rightarrow> w
      | Some st \<Rightarrow>
          w\<lparr>currentFile := (currentFile w)
              \<lparr>bytesWritten := bytesWritten (currentFile w) + (payloadLen + 1),
               writeStream :=
                 Some (streamWrite (WriteFrame command payloadLen (take payloadLen payloadPtr)) st)\<rparr>\<rparr>)"

definition onFileStateChange :: "writer \<Rightarrow> writer" where
  "onFileStateChange w = w\<lparr>fileStateChanges := fileStateChanges w + 1\<rparr>"

definition getNewFilePath :: "moment \<Rightarrow> writer \<Rightarrow> string" where
  "getNewFilePath m w =
     folderPath w @ ''/'' @ ''Game_'' @ formatYMD m @ ''T'' @ formatHMS m @ ''.slp''"

definition fileHeader :: "byte list" where
  "fileHeader =
     bufferFrom ''{U'' @ bufferFromNumber 3 @ bufferFrom ''raw[$U#l'' @ [0, 0, 0, 0]"

definition initializeNewGame :: "writer \<Rightarrow> writer" where
  "initializeNewGame w =
     (let startTime = clock w;
          filePath = getNewFilePath startTime w;
          writeStream = \<lparr> streamPath = filePath, streamCalls = [] \<rparr>;
          clearFileObj = getClearedCurrentFile
      in w\<lparr>currentFile := clearFileObj
             \<lparr>path := Some filePath,
              writeStream := Some (streamWrite (WriteHeader fileHeader) writeStream),
              metadata := (metadata clearFileObj)\<lparr>startTime := Some startTime\<rparr>\<rparr>,
           clients := map (\<lambda>client. client\<lparr>readPos := 0\<rparr>) (clients w)\<rparr>)"

subsection \<open>Finishing a recording\<close>

text \<open>
  The footer is built before anything is written, so an exception while building it
  leaves the object untouched. \<open>_.forEach\<close> visits the keys of \<open>players\<close> and of
  \<open>characterUsage\<close> in ascending numeric order: they are decimal renderings of bytes.
\<close>

definition allBytes :: "byte list" where
  "allBytes = map of_nat [0..<256]"

fun usageEntries :: "(byte \<rightharpoonup> nat) \<Rightarrow> byte list \<Rightarrow> error + byte list" where
  "usageEntries characterUsage [] = Inr []"
| "usageEntries characterUsage (internalId # ids) =
     (case characterUsage internalId of
        None \<Rightarrow> usageEntries characterUsage ids
      | Some usage \<Rightarrow>
          (case createUInt32Buffer usage of
             Inl e \<Rightarrow> Inl e
           | Inr buf \<Rightarrow>
               (case usageEntries characterUsage ids of
                  Inl e \<Rightarrow> Inl e
                | Inr rest \<Rightarrow>
                    Inr (bufferFrom ''U''
                         @ bufferFromNumber (length (decimal (unat internalId)))
                         @ bufferFrom (decimal (unat internalId) @ ''l'')
                         @ buf @ rest))))"

fun playerEntries :: "(byte \<rightharpoonup> (byte \<rightharpoonup> nat)) \<Rightarrow> byte list \<Rightarrow> error + byte list" where
  "playerEntries ps [] = Inr []"
| "playerEntries ps (index # indices) =
     (case ps index of
        None \<Rightarrow> playerEntries ps indices
      | Some characterUsage \<Rightarrow>
          (case usageEntries characterUsage allBytes of
             Inl e \<Rightarrow> Inl e
           | Inr usages \<Rightarrow>
               (case playerEntries ps indices of
                  Inl e \<Rightarrow> Inl e
                | Inr rest \<Rightarrow>
                    Inr (bufferFrom ''U''
                         @ bufferFromNumber (length (decimal (unat index)))
                         @ bufferFrom (decimal (unat index) @ ''{'')
                         @ bufferFrom ''U'' @ bufferFromNumber 10 @ bufferFrom ''characters{''
                         @ usages
                         @ bufferFrom ''}}''
                         @ rest))))"

definition composeFooter :: "moment \<Rightarrow> writer \<Rightarrow> error + byte list" where
  "composeFooter m w =
     (let startTimeStr = isoString m in
      case createInt32Buffer (lastFrame (metadata (currentFile w))) of
        Inl e \<Rightarrow> Inl e
      | Inr lastFrameBuf \<Rightarrow>
          (case playerEntries (players (metadata (currentFile w))) allBytes of
             Inl e \<Rightarrow> Inl e
           | Inr playerBufs \<Rightarrow>
               Inr (bufferFrom ''U'' @ bufferFromNumber 8 @ bufferFrom ''metadata{''
                    @ bufferFrom ''U'' @ bufferFromNumber 7 @ bufferFrom ''startAtSU''
                    @ bufferFromNumber (length startTimeStr) @ bufferFrom startTimeStr
                    @ bufferFrom ''U'' @ bufferFromNumber 9 @ bufferFrom ''lastFramel''
                    @ lastFrameBuf
                    @ bufferFrom ''U'' @ bufferFromNumber 11 @ bufferFrom ''consoleNickSU''
                    @ bufferFromNumber (length (consoleNick w)) @ bufferFrom (consoleNick w)
                    @ bufferFrom ''U'' @ bufferFromNumber 7 @ bufferFrom ''players{''
                    @ playerBufs
                    @ bufferFrom ''}''
                    @ bufferFrom ''U'' @ bufferFromNumber 8 @ bufferFrom ''playedOnSU''
                    @ bufferFromNumber 7 @ bufferFrom ''network''
                    @ bufferFrom ''}}'')))"

definition endGame :: "writer \<Rightarrow> writer \<times> (error + unit)" where
  "endGame w =
     (case writeStream (currentFile w) of
        None \<Rightarrow> (w\<lparr>currentFile := getClearedCurrentFile\<rparr>, Inr ())
      | Some st \<Rightarrow>
          (case startTime (metadata (currentFile w)) of
             None \<Rightarrow> (w, Inl TypeError)
           | Some m \<Rightarrow>
               (case composeFooter m w of
                  Inl e \<Rightarrow> (w, Inl e)
                | Inr footer \<Rightarrow>
                    (w\<lparr>currentFile := (currentFile w)
                         \<lparr>writeStream :=
                            Some (streamWrite EndStream (streamWrite (WriteFooter footer) st))\<rparr>,
                       pendingEnds := pendingEnds w + 1\<rparr>,
                     Inr ()))))"

text \<open>
  The callback given to \<open>writeStream.end\<close>. It runs in a later turn and reads
  \<open>this.currentFile\<close> as it is then: the length is patched at offset 11 of the file at
  the current path, and the current file is cleared.
\<close>

definition streamFinished :: "writer \<Rightarrow> writer \<times> (error + unit)" where
  "streamFinished w =
     (case path (currentFile w) of
        None \<Rightarrow> (w, Inl TypeError)
      | Some p \<Rightarrow>
          (case createUInt32Buffer (bytesWritten (currentFile w)) of
             Inl e \<Rightarrow> (w, Inl e)
           | Inr buf \<Rightarrow>
               (onFileStateChange
                  (w\<lparr>patches := patches w @ [(p, 11, buf)],
                     currentFile := getClearedCurrentFile\<rparr>),
                Inr ())))"

subsection \<open>Interpreting frames\<close>

function receiveLoop :: "dataView \<Rightarrow> nat \<Rightarrow> nat \<Rightarrow> writer \<Rightarrow> writer \<times> (error + unit)" where
  "receiveLoop dv payloadLen i w =
     (if i < payloadLen then
        (case getUint8 dv i of
           Inl e \<Rightarrow> (w, Inl e)
         | Inr commandByte \<Rightarrow>
             (case getUint16 dv (i + 1) of
                Inl e \<Rightarrow> (w, Inl e)
              | Inr payloadSize \<Rightarrow>
                  receiveLoop dv payloadLen (i + 3)
                    (w\<lparr>currentFile := (currentFile w)
                        \<lparr>payloadSizes := (payloadSizes (currentFile w))(commandByte \<mapsto> payloadSize)\<rparr>\<rparr>)))
      else (w, Inr ()))"
  by pat_completeness auto
termination
  by (relation "measure (\<lambda>(dv, payloadLen, i, w). payloadLen - i)") auto

declare receiveLoop.simps [simp del]

definition processReceiveCommands :: "dataView \<Rightarrow> writer \<Rightarrow> writer \<times> (error + nat)" where
  "processReceiveCommands dv w =
     (case getUint8 dv 0 of
        Inl e \<Rightarrow> (w, Inl e)
      | Inr b \<Rightarrow>
          (let payloadLen = unat b in
           case receiveLoop dv payloadLen 1 w of
             (w', Inl e) \<Rightarrow> (w', Inl e)
           | (w', Inr u) \<Rightarrow> (w', Inr payloadLen)))"

text \<open>The four reads at the head of the frame-update case; each may raise.\<close>

definition readPostFrameUpdate :: "dataView \<Rightarrow> error + (int \<times> byte \<times> byte \<times> byte)" where
  "readPostFrameUpdate dv =
     (case getInt32 dv 0 of
        Inl e \<Rightarrow> Inl e
      | Inr frameIndex \<Rightarrow>
          (case getUint8 dv 4 of
             Inl e \<Rightarrow> Inl e
           | Inr playerIndex \<Rightarrow>
               (case getUint8 dv 5 of
                  Inl e \<Rightarrow> Inl e
                | Inr isFollower \<Rightarrow>
                    (case getUint8 dv 6 of
                       Inl e \<Rightarrow> Inl e
                     | Inr internalCharacterId \<Rightarrow>
                         Inr (frameIndex, playerIndex, isFollower, internalCharacterId)))))"

definition updateCharacterUsage :: "byte \<Rightarrow> byte \<Rightarrow> (byte \<rightharpoonup> (byte \<rightharpoonup> nat)) \<Rightarrow> (byte \<rightharpoonup> (byte \<rightharpoonup> nat))" where
  "updateCharacterUsage playerIndex internalCharacterId ps =
     (let characterUsage = (case ps playerIndex of None \<Rightarrow> Map.empty | Some cu \<Rightarrow> cu);
          curCharFrames = (case characterUsage internalCharacterId of None \<Rightarrow> 0 | Some n \<Rightarrow> n)
      in ps(playerIndex \<mapsto> characterUsage(internalCharacterId \<mapsto> curCharFrames + 1)))"

definition processCommand :: "byte \<Rightarrow> dataView \<Rightarrow> writer \<Rightarrow> writer \<times> (error + nat)" where
  "processCommand command dv w =
     (case payloadSizes (currentFile w) command of
        None \<Rightarrow> (w, Inr 0)
      | Some payloadSize \<Rightarrow>
          if payloadSize = 0 then (w, Inr 0)
          else if command = CMD_RECEIVE_POST_FRAME_UPDATE then
            (case readPostFrameUpdate dv of
               Inl e \<Rightarrow> (w, Inl e)
             | Inr (frameIndex, playerIndex, isFollower, internalCharacterId) \<Rightarrow>
                 if isFollower \<noteq> 0 then (w, Inr payloadSize)
                 else
                   (w\<lparr>currentFile := (currentFile w)
                       \<lparr>metadata := (metadata (currentFile w))
                          \<lparr>lastFrame := frameIndex,
                           players := updateCharacterUsage playerIndex internalCharacterId
                                        (players (metadata (currentFile w)))\<rparr>\<rparr>\<rparr>,
                    Inr payloadSize))
          else if command = CMD_RECEIVE_GAME_END then
            (case getUint8 dv 0 of
               Inl e \<Rightarrow> (w, Inl e)
             | Inr endMethod \<Rightarrow>
                 ((if endMethod \<noteq> 7 then handleStatusOutput 700 w else w), Inr payloadSize))
          else (w, Inr payloadSize))"

subsection \<open>Ingesting a delivery\<close>

record flags =
  isNewGame :: bool
  isGameEnd :: bool

definition emit :: "byte \<Rightarrow> byte list \<Rightarrow> nat \<Rightarrow> writer \<Rightarrow> writer" where
  "emit command payloadPtr payloadLen w =
     w\<lparr>emitted := emitted w @
          [\<lparr> frameCommand = command, framePayload = take payloadLen payloadPtr \<rparr>]\<rparr>"

text \<open>
  The \<open>switch\<close> of \<open>handleData\<close>, for the command at the current index; \<open>payloadPtr\<close>
  is the data after the command byte. It returns the payload length by which the index
  then advances. Every branch hands the frame to \<open>writeCommand\<close>; the frame is recorded
  in \<open>emitted\<close> at that point.
\<close>

definition switchCommand :: "byte \<Rightarrow> byte list \<Rightarrow> flags \<Rightarrow> writer \<Rightarrow> writer \<times> (error + nat \<times> flags)" where
  "switchCommand command payloadPtr fl w =
     (if command = CMD_RECEIVE_COMMANDS then
        (case processReceiveCommands payloadPtr (initializeNewGame w) of
           (w1, Inl e) \<Rightarrow> (w1, Inl e)
         | (w1, Inr payloadLen) \<Rightarrow>
             (onFileStateChange
                (writeCommand command payloadPtr payloadLen (emit command payloadPtr payloadLen w1)),
              Inr (payloadLen, fl\<lparr>isNewGame := True\<rparr>)))
      else if command = CMD_RECEIVE_GAME_END then
        (case processCommand command payloadPtr w of
           (w1, Inl e) \<Rightarrow> (w1, Inl e)
         | (w1, Inr payloadLen) \<Rightarrow>
             (case endGame
                     (writeCommand command payloadPtr payloadLen
                        (emit command payloadPtr payloadLen w1)) of
                (w2, Inl e) \<Rightarrow> (w2, Inl e)
              | (w2, Inr u) \<Rightarrow> (w2, Inr (payloadLen, fl\<lparr>isGameEnd := True\<rparr>))))
      else if command = CMD_GAME_START then
        (case processCommand command payloadPtr w of
           (w1, Inl e) \<Rightarrow> (w1, Inl e)
         | (w1, Inr payloadLen) \<Rightarrow>
             (writeCommand command payloadPtr payloadLen (emit command payloadPtr payloadLen w1),
              Inr (payloadLen, fl)))
      else
        (case processCommand command payloadPtr w of
           (w1, Inl e) \<Rightarrow> (w1, Inl e)
         | (w1, Inr payloadLen) \<Rightarrow>
             (handleStatusOutput 200
                (writeCommand command payloadPtr payloadLen
                   (emit command payloadPtr payloadLen w1)),
              Inr (payloadLen, fl))))"

definition keepAlive :: "byte list" where
  "keepAlive = [0x48, 0x45, 0x4C, 0x4F, 0x00]"

definition lookupPayloadSize :: "writer \<Rightarrow> byte \<Rightarrow> nat" where
  "lookupPayloadSize w command =
     (case payloadSizes (currentFile w) command of None \<Rightarrow> 0 | Some n \<Rightarrow> n)"

function handleLoop :: "byte list \<Rightarrow> nat \<Rightarrow> flags \<Rightarrow> writer \<Rightarrow> writer \<times> (error + flags)" where
  "handleLoop data index fl w =
     (if \<not> index < length data then (w, Inr fl)
      else if take 5 (drop index data) = keepAlive then handleLoop data (index + 5) fl w
      else if length data - index < lookupPayloadSize w (data ! index) + 1
      then (w\<lparr>currentFile := (currentFile w)\<lparr>previousBuffer := drop index data\<rparr>\<rparr>, Inr fl)
      else
        (case switchCommand (data ! index) (drop (index + 1) data) fl
                (w\<lparr>currentFile := (currentFile w)\<lparr>previousBuffer := []\<rparr>\<rparr>) of
           (w', Inl e) \<Rightarrow> (w', Inl e)
         | (w', Inr (payloadLen, fl')) \<Rightarrow> handleLoop data (index + 1 + payloadLen) fl' w'))"
  by pat_completeness auto
termination
  by (relation "measure (\<lambda>(data, index, fl, w). length data - index)") auto

declare handleLoop.simps [simp del]

definition relayTo :: "byte list \<Rightarrow> client \<Rightarrow> client" where
  "relayTo buf c =
     c\<lparr>socket := (socket c)\<lparr>socketWrites := socketWrites (socket c) @ [drop (readPos c) buf]\<rparr>,
       readPos := length buf\<rparr>"

definition relay :: "byte list \<Rightarrow> writer \<Rightarrow> writer" where
  "relay newData w =
     (let buf = fullBuffer (currentFile w) @ newData
      in w\<lparr>currentFile := (currentFile w)\<lparr>fullBuffer := buf\<rparr>,
           clients := map (relayTo buf) (clients w)\<rparr>)"

definition handleData :: "byte list \<Rightarrow> writer \<Rightarrow> writer \<times> (error + flags)" where
  "handleData newData w =
     (case handleLoop (previousBuffer (currentFile w) @ newData) 0
             \<lparr> isNewGame = False, isGameEnd = False \<rparr> w of
        (w', Inl e) \<Rightarrow> (w', Inl e)
      | (w', Inr fl) \<Rightarrow> (relay newData w', Inr fl))"

subsection \<open>Runs\<close>

text \<open>
  What can happen to the object between two turns of the event loop: a delivery, the
  end of a stream's \<open>end\<close>, the timer, a relay client connecting or closing, the clock
  moving on. An exception ends the turn and leaves the object as it is.
\<close>

datatype event =
    Data "byte list"
  | StreamClosed
  | TimerFired
  | Connected nat
  | Closed nat
  | Tick moment

fun step :: "writer \<Rightarrow> event \<Rightarrow> writer" where
  "step w (Data newData) = fst (handleData newData w)"
| "step w StreamClosed =
     (if pendingEnds w = 0 then w
      else fst (streamFinished (w\<lparr>pendingEnds := pendingEnds w - 1\<rparr>)))"
| "step w TimerFired = timerFired w"
| "step w (Connected sid) = clientConnected sid w"
| "step w (Closed sid) = clientClosed sid w"
| "step w (Tick m) = w\<lparr>clock := m\<rparr>"

definition run :: "writer \<Rightarrow> event list \<Rightarrow> writer" where
  "run w es = foldl step w es"

subsection \<open>Example objects\<close>

definition exampleMoment :: moment where
  "exampleMoment =
     \<lparr> isoString = ''2019-01-01T00:00:00.000Z'', formatYMD = ''20190101'',
       formatHMS = ''000000'' \<rparr>"

text \<open>A fresh writer whose OBS connection has found one scene holding the source.\<close>

definition exampleWriter :: writer where
  "exampleWriter =
     (newWriter ''out'' ''nick'' ''src'' exampleMoment)\<lparr>obsPairs := [(''scene'', ''src'')]\<rparr>"

text \<open>The same writer while a game is loading: the last frame seen is \<open>-100\<close>.\<close>

definition loadingWriter :: writer where
  "loadingWriter =
     exampleWriter\<lparr>currentFile := getClearedCurrentFile
       \<lparr>metadata := \<lparr> startTime = None, lastFrame = - 100, players = Map.empty \<rparr>\<rparr>\<rparr>"

text \<open>
  A handshake that declares the payload sizes of the commands \<open>0x37\<close> (1 byte),
  \<open>0x38\<close> (10 bytes) and \<open>0x39\<close> (1 byte), and frames of that session: frame updates
  of player 0 with character 18, at frame \<open>-100\<close>, at frame 0, and one of a follower at
  frame 1; a frame of command \<open>0x37\<close>; and a game end with end method 7.
\<close>

definition handshakeBytes :: "byte list" where
  "handshakeBytes = [0x35, 10, 0x37, 0, 1, 0x38, 0, 10, 0x39, 0, 1]"

definition loadingFrame :: "byte list" where
  "loadingFrame = [0x38, 0xFF, 0xFF, 0xFF, 0x9C, 0, 0, 18, 0, 0, 0]"

definition liveFrame :: "byte list" where
  "liveFrame = [0x38, 0, 0, 0, 0, 0, 0, 18, 0, 0, 0]"

definition followerFrame :: "byte list" where
  "followerFrame = [0x38, 0, 0, 0, 1, 0, 1, 18, 0, 0, 0]"

definition otherFrame :: "byte list" where
  "otherFrame = [0x37, 0]"

definition gameEndFrame :: "byte list" where
  "gameEndFrame = [0x39, 7]"

definition noFlags :: flags where
  "noFlags = \<lparr> isNewGame = False, isGameEnd = False \<rparr>"





subsection \<open>Notions used in the properties\<close>


text \<open>The part of the writer the status indicator shows to the outside.\<close>

definition indicator :: "writer \<Rightarrow> statusOutput \<times> (string \<times> string \<times> bool) list \<times> nat option" where
  "indicator w = (statusOutput w, obsRequests w, armedTimer w)"

text \<open>
  The bytes of the frames submitted to a stream, counted as \<open>writeCommand\<close> counts
  them: one for the command and the payload length it was given.
\<close>

fun frameBytes :: "streamCall list \<Rightarrow> nat" where
  "frameBytes [] = 0"
| "frameBytes (WriteFrame command payloadLen payload # calls) = (1 + payloadLen) + frameBytes calls"
| "frameBytes (call # calls) = frameBytes calls"

definition usageOf :: "writer \<Rightarrow> byte \<Rightarrow> byte \<Rightarrow> nat" where
  "usageOf w playerIndex internalCharacterId =
     (case players (metadata (currentFile w)) playerIndex of
        None \<Rightarrow> 0
      | Some characterUsage \<Rightarrow>
          (case characterUsage internalCharacterId of None \<Rightarrow> 0 | Some n \<Rightarrow> n))"

fun isUpdateOf :: "byte \<Rightarrow> byte \<Rightarrow> streamCall \<Rightarrow> bool" where
  "isUpdateOf playerIndex internalCharacterId (WriteFrame command payloadLen payload) =
     (command = CMD_RECEIVE_POST_FRAME_UPDATE
      \<and> (case readPostFrameUpdate payload of
            Inl e \<Rightarrow> False
          | Inr (frameIndex, p, isFollower, c) \<Rightarrow>
              isFollower = 0 \<and> p = playerIndex \<and> c = internalCharacterId))"
| "isUpdateOf playerIndex internalCharacterId call = False"

definition countUpdates :: "byte \<Rightarrow> byte \<Rightarrow> streamCall list \<Rightarrow> nat" where
  "countUpdates playerIndex internalCharacterId calls =
     length (filter (isUpdateOf playerIndex internalCharacterId) calls)"

fun fullUpdate :: "streamCall \<Rightarrow> bool" where
  "fullUpdate (WriteFrame command payloadLen payload) =
     (command \<noteq> CMD_RECEIVE_POST_FRAME_UPDATE \<or> payloadLen = 0 \<or> 7 \<le> payloadLen)"
| "fullUpdate call = True"

definition recordingInv :: "writer \<Rightarrow> bool" where
  "recordingInv w =
     (case writeStream (currentFile w) of
        None \<Rightarrow>
          bytesWritten (currentFile w) = 0 \<and> path (currentFile w) = None
          \<and> payloadSizes (currentFile w) = Map.empty
          \<and> players (metadata (currentFile w)) = Map.empty
      | Some st \<Rightarrow>
          bytesWritten (currentFile w) = frameBytes (streamCalls st)
          \<and> path (currentFile w) = Some (streamPath st)
          \<and> (list_all fullUpdate (streamCalls st) \<longrightarrow>
                (\<forall>p c. usageOf w p c = countUpdates p c (streamCalls st))))"


fun exactFrame :: "streamCall \<Rightarrow> bool" where
  "exactFrame (WriteFrame command payloadLen payload) = (length payload = payloadLen)"
| "exactFrame call = True"

definition exactInv :: "writer \<Rightarrow> bool" where
  "exactInv w =
     (case writeStream (currentFile w) of
        None \<Rightarrow> True
      | Some st \<Rightarrow> list_all exactFrame (streamCalls st))"







text \<open>A handshake with an empty table followed by the keep-alive token, cut inside the
  token.\<close>

definition splitHead :: "byte list" where
  "splitHead = [0x35, 1, 0x48, 0x45]"

definition splitTail :: "byte list" where
  "splitTail = [0x4C, 0x4F, 0x00]"

section \<open>Properties\<close>

subsection \<open>The status indicator below the threshold\<close>

text \<open>
  Claim C7. When \<open>handleStatusOutput\<close> is called while \<open>lastFrame\<close> is below \<open>-60\<close>,
  the call changes nothing: the status stays as it was, no timer is armed, and no request
  goes to OBS.
\<close>

theorem pulse_suppressed_below_threshold:
  "lastFrame (metadata (currentFile w)) < - 60 \<Longrightarrow> handleStatusOutput holdMs w = w"
  by (simp add: handleStatusOutput_def)

theorem pulse_suppressed_below_threshold_witness:
  "lastFrame (metadata (currentFile loadingWriter)) < - 60
   \<and> handleStatusOutput 200 loadingWriter = loadingWriter
   \<and> obsRequests (handleStatusOutput 200 loadingWriter) = []
   \<and> armedTimer (handleStatusOutput 200 loadingWriter) = None
   \<and> \<not> status (statusOutput (handleStatusOutput 200 loadingWriter))"
proof -
  have below: "lastFrame (metadata (currentFile loadingWriter)) < - 60"
    by (simp add: loadingWriter_def)
  have same: "handleStatusOutput 200 loadingWriter = loadingWriter"
    using pulse_suppressed_below_threshold [OF below] .
  show ?thesis
    unfolding same using below
    by (simp add: loadingWriter_def exampleWriter_def newWriter_def)
qed

subsection \<open>Finishing and writing without an open stream\<close>

text \<open>
  Claim C9. With no write stream open, \<open>endGame\<close> only replaces the current file by the
  cleared one (nothing is written, no footer is built, no stream-end callback is left
  pending, so nothing is patched), and \<open>writeCommand\<close> changes nothing, in particular not
  \<open>bytesWritten\<close>.
\<close>

theorem finalize_without_resource:
  "writeStream (currentFile w) = None \<Longrightarrow>
     endGame w = (w\<lparr>currentFile := getClearedCurrentFile\<rparr>, Inr ())
     \<and> writeCommand command payloadPtr payloadLen w = w"
  by (simp add: endGame_def writeCommand_def)

theorem finalize_without_resource_witness:
  "writeStream (currentFile loadingWriter) = None
   \<and> endGame loadingWriter = (loadingWriter\<lparr>currentFile := getClearedCurrentFile\<rparr>, Inr ())
   \<and> writeCommand 0x36 [1, 2, 3] 3 loadingWriter = loadingWriter"
proof -
  have closed: "writeStream (currentFile loadingWriter) = None"
    by (simp add: loadingWriter_def getClearedCurrentFile_def)
  show ?thesis
    using closed finalize_without_resource [OF closed, of "0x36" "[1, 2, 3]" 3] by simp
qed

subsection \<open>Evaluating the examples\<close>

lemmas eval_defs = handleData_def handleLoop.simps switchCommand_def processCommand_def
  processReceiveCommands_def receiveLoop.simps lookupPayloadSize_def keepAlive_def
  exampleWriter_def newWriter_def getClearedCurrentFile_def emit_def writeCommand_def
  handleStatusOutput_def setTimer_def setStatus_def relay_def relayTo_def
  CMD_RECEIVE_COMMANDS_def CMD_GAME_START_def CMD_RECEIVE_POST_FRAME_UPDATE_def
  CMD_RECEIVE_GAME_END_def initializeNewGame_def onFileStateChange_def streamWrite_def
  getUint8_def getUint16_def getUint32_def getInt32_def readPostFrameUpdate_def
  updateCharacterUsage_def Let_def run_def timerFired_def
  handshakeBytes_def loadingFrame_def liveFrame_def followerFrame_def otherFrame_def
  gameEndFrame_def noFlags_def



subsection \<open>What a handshake resets\<close>

lemma initializeNewGame_fields:
  "payloadSizes (currentFile (initializeNewGame w)) = Map.empty"
  "previousBuffer (currentFile (initializeNewGame w)) = []"
  "fullBuffer (currentFile (initializeNewGame w)) = []"
  "bytesWritten (currentFile (initializeNewGame w)) = 0"
  "lastFrame (metadata (currentFile (initializeNewGame w))) = - 124"
  "players (metadata (currentFile (initializeNewGame w))) = Map.empty"
  "startTime (metadata (currentFile (initializeNewGame w))) = Some (clock w)"
  "path (currentFile (initializeNewGame w)) = Some (getNewFilePath (clock w) w)"
  "writeStream (currentFile (initializeNewGame w)) =
     Some \<lparr> streamPath = getNewFilePath (clock w) w, streamCalls = [WriteHeader fileHeader] \<rparr>"
  "clients (initializeNewGame w) = map (\<lambda>client. client\<lparr>readPos := 0\<rparr>) (clients w)"
  by (simp_all add: initializeNewGame_def getClearedCurrentFile_def Let_def streamWrite_def)

lemma initializeNewGame_other:
  "statusOutput (initializeNewGame w) = statusOutput w"
  "obsRequests (initializeNewGame w) = obsRequests w"
  "armedTimer (initializeNewGame w) = armedTimer w"
  "emitted (initializeNewGame w) = emitted w"
  "patches (initializeNewGame w) = patches w"
  "pendingEnds (initializeNewGame w) = pendingEnds w"
  by (simp_all add: initializeNewGame_def Let_def)

lemma initializeNewGame_forgets:
  "initializeNewGame (w\<lparr>currentFile := cf\<rparr>) = initializeNewGame w"
  by (simp add: initializeNewGame_def Let_def getNewFilePath_def)

lemma map_readPos_reset:
  "map readPos (map (\<lambda>client. client\<lparr>readPos := 0\<rparr>) cs) = replicate (length cs) 0"
  "map (readPos \<circ> readPos_update (\<lambda>_. 0)) cs = replicate (length cs) 0"
  by (induction cs) simp_all

text \<open>Reading the handshake payload changes nothing but the payload-size table.\<close>

lemma receiveLoop_frame:
  "receiveLoop dv n i w = (w', r) \<Longrightarrow>
     \<exists>tbl. w' = w\<lparr>currentFile := (currentFile w)\<lparr>payloadSizes := tbl\<rparr>\<rparr>"
proof (induction dv n i w arbitrary: w' r rule: receiveLoop.induct)
  case (1 dv payloadLen i w)
  have same: "w = w\<lparr>currentFile := (currentFile w)\<lparr>payloadSizes := payloadSizes (currentFile w)\<rparr>\<rparr>"
    by simp
  show ?case
  proof (cases "i < payloadLen")
    case False
    with "1.prems" have "w' = w" by (simp add: receiveLoop.simps)
    with same show ?thesis by blast
  next
    case True
    show ?thesis
    proof (cases "getUint8 dv i")
      case (Inl e)
      with True "1.prems" have "w' = w" by (simp add: receiveLoop.simps)
      with same show ?thesis by blast
    next
      case (Inr commandByte)
      note cmd = this
      show ?thesis
      proof (cases "getUint16 dv (i + 1)")
        case (Inl e)
        with True cmd "1.prems" have "w' = w" by (simp add: receiveLoop.simps)
        with same show ?thesis by blast
      next
        case (Inr payloadSize)
        let ?w1 = "w\<lparr>currentFile := (currentFile w)
                        \<lparr>payloadSizes := (payloadSizes (currentFile w))(commandByte \<mapsto> payloadSize)\<rparr>\<rparr>"
        from True cmd Inr "1.prems"
        have "receiveLoop dv payloadLen (i + 3) ?w1 = (w', r)"
          by (simp add: receiveLoop.simps [of dv payloadLen i w])
        from "1.IH" [OF True cmd Inr this]
        obtain tbl where "w' = ?w1\<lparr>currentFile := (currentFile ?w1)\<lparr>payloadSizes := tbl\<rparr>\<rparr>"
          by blast
        then have "w' = w\<lparr>currentFile := (currentFile w)\<lparr>payloadSizes := tbl\<rparr>\<rparr>"
          by simp
        then show ?thesis by blast
      qed
    qed
  qed
qed

lemma processReceiveCommands_frame:
  assumes "processReceiveCommands dv w = (w', r)"
  shows "\<exists>tbl. w' = w\<lparr>currentFile := (currentFile w)\<lparr>payloadSizes := tbl\<rparr>\<rparr>"
proof (cases "getUint8 dv 0")
  case (Inl e)
  with assms have "w' = w" by (simp add: processReceiveCommands_def)
  then have "w' = w\<lparr>currentFile := (currentFile w)\<lparr>payloadSizes := payloadSizes (currentFile w)\<rparr>\<rparr>"
    by simp
  then show ?thesis by blast
next
  case (Inr b)
  obtain w1 r1 where l: "receiveLoop dv (unat b) 1 w = (w1, r1)"
    by (cases "receiveLoop dv (unat b) 1 w") auto
  with assms Inr have "w' = w1"
    by (cases r1) (simp_all add: processReceiveCommands_def Let_def)
  with receiveLoop_frame [OF l] show ?thesis by simp
qed

text \<open>
  Claim C3. The first thing the handshake branch of the \<open>switch\<close> does is
  \<open>initializeNewGame\<close>, whose result has an empty payload-size table, an empty relay
  buffer, a bytes-written counter of 0, every client's cursor at 0, no player statistics
  and \<open>lastFrame = -124\<close>. When the branch is left, and so before the loop reads the next
  command byte, the relay buffer is still empty, the cursors are still 0, the statistics
  are still the initial ones, and the counter holds the handshake frame alone. Nothing of
  the previous current file survives: the branch gives the same result whatever the
  current file was.
\<close>

theorem handshake_resets_session:
  "payloadSizes (currentFile (initializeNewGame w)) = Map.empty
   \<and> fullBuffer (currentFile (initializeNewGame w)) = []
   \<and> bytesWritten (currentFile (initializeNewGame w)) = 0
   \<and> map readPos (clients (initializeNewGame w)) = replicate (length (clients w)) 0
   \<and> players (metadata (currentFile (initializeNewGame w))) = Map.empty
   \<and> lastFrame (metadata (currentFile (initializeNewGame w))) = - 124
   \<and> fullBuffer (currentFile (fst (switchCommand CMD_RECEIVE_COMMANDS payloadPtr fl w))) = []
   \<and> map readPos (clients (fst (switchCommand CMD_RECEIVE_COMMANDS payloadPtr fl w)))
       = replicate (length (clients w)) 0
   \<and> players (metadata (currentFile (fst (switchCommand CMD_RECEIVE_COMMANDS payloadPtr fl w))))
       = Map.empty
   \<and> lastFrame (metadata (currentFile (fst (switchCommand CMD_RECEIVE_COMMANDS payloadPtr fl w))))
       = - 124
   \<and> bytesWritten (currentFile (fst (switchCommand CMD_RECEIVE_COMMANDS payloadPtr fl w)))
       = (case snd (switchCommand CMD_RECEIVE_COMMANDS payloadPtr fl w) of
            Inl e \<Rightarrow> 0
          | Inr (payloadLen, fl') \<Rightarrow> payloadLen + 1)
   \<and> switchCommand CMD_RECEIVE_COMMANDS payloadPtr fl (w\<lparr>currentFile := cf\<rparr>)
       = switchCommand CMD_RECEIVE_COMMANDS payloadPtr fl w"
proof -
  let ?w0 = "initializeNewGame w"
  obtain w1 r where p: "processReceiveCommands payloadPtr ?w0 = (w1, r)"
    by (cases "processReceiveCommands payloadPtr ?w0") auto
  obtain tbl where w1: "w1 = ?w0\<lparr>currentFile := (currentFile ?w0)\<lparr>payloadSizes := tbl\<rparr>\<rparr>"
    using processReceiveCommands_frame [OF p] by blast
  have stream: "writeStream (currentFile w1) \<noteq> None"
    by (simp add: w1 initializeNewGame_fields)
  have sw: "switchCommand CMD_RECEIVE_COMMANDS payloadPtr fl w =
      (case r of
         Inl e \<Rightarrow> (w1, Inl e)
       | Inr payloadLen \<Rightarrow>
           (onFileStateChange
              (writeCommand CMD_RECEIVE_COMMANDS payloadPtr payloadLen
                 (emit CMD_RECEIVE_COMMANDS payloadPtr payloadLen w1)),
            Inr (payloadLen, fl\<lparr>isNewGame := True\<rparr>)))"
    by (simp add: switchCommand_def p split: sum.splits)
  have reset: "payloadSizes (currentFile ?w0) = Map.empty
      \<and> fullBuffer (currentFile ?w0) = []
      \<and> bytesWritten (currentFile ?w0) = 0
      \<and> map readPos (clients ?w0) = replicate (length (clients w)) 0
      \<and> players (metadata (currentFile ?w0)) = Map.empty
      \<and> lastFrame (metadata (currentFile ?w0)) = - 124"
    by (simp add: initializeNewGame_fields map_readPos_reset)
  have after: "fullBuffer (currentFile (fst (switchCommand CMD_RECEIVE_COMMANDS payloadPtr fl w))) = []
      \<and> map readPos (clients (fst (switchCommand CMD_RECEIVE_COMMANDS payloadPtr fl w)))
          = replicate (length (clients w)) 0
      \<and> players (metadata (currentFile (fst (switchCommand CMD_RECEIVE_COMMANDS payloadPtr fl w))))
          = Map.empty
      \<and> lastFrame (metadata (currentFile (fst (switchCommand CMD_RECEIVE_COMMANDS payloadPtr fl w))))
          = - 124
      \<and> bytesWritten (currentFile (fst (switchCommand CMD_RECEIVE_COMMANDS payloadPtr fl w)))
          = (case snd (switchCommand CMD_RECEIVE_COMMANDS payloadPtr fl w) of
               Inl e \<Rightarrow> 0
             | Inr (payloadLen, fl') \<Rightarrow> payloadLen + 1)"
    using stream
    by (cases r)
       (auto simp add: sw w1 initializeNewGame_fields map_readPos_reset writeCommand_def
          emit_def onFileStateChange_def)
  have forget: "switchCommand CMD_RECEIVE_COMMANDS payloadPtr fl (w\<lparr>currentFile := cf\<rparr>)
      = switchCommand CMD_RECEIVE_COMMANDS payloadPtr fl w"
    by (simp add: switchCommand_def initializeNewGame_forgets)
  from reset after forget show ?thesis by blast
qed

subsection \<open>The game-end frame\<close>



subsection \<open>Followers and other commands\<close>




subsection \<open>Reasoning about the ingest loop\<close>




lemma handleStatusOutput_frame [simp]:
  "clients (handleStatusOutput t w) = clients w"
  "currentFile (handleStatusOutput t w) = currentFile w"
  "emitted (handleStatusOutput t w) = emitted w"
  "pendingEnds (handleStatusOutput t w) = pendingEnds w"
  "patches (handleStatusOutput t w) = patches w"
  by (simp_all add: handleStatusOutput_def setTimer_def setStatus_def)

lemma writeCommand_frame [simp]:
  "clients (writeCommand c p n w) = clients w"
  "statusOutput (writeCommand c p n w) = statusOutput w"
  "obsRequests (writeCommand c p n w) = obsRequests w"
  "armedTimer (writeCommand c p n w) = armedTimer w"
  "emitted (writeCommand c p n w) = emitted w"
  "pendingEnds (writeCommand c p n w) = pendingEnds w"
  "patches (writeCommand c p n w) = patches w"
  "payloadSizes (currentFile (writeCommand c p n w)) = payloadSizes (currentFile w)"
  "previousBuffer (currentFile (writeCommand c p n w)) = previousBuffer (currentFile w)"
  "fullBuffer (currentFile (writeCommand c p n w)) = fullBuffer (currentFile w)"
  "path (currentFile (writeCommand c p n w)) = path (currentFile w)"
  "metadata (currentFile (writeCommand c p n w)) = metadata (currentFile w)"
  by (simp_all add: writeCommand_def split: option.splits)

lemma emit_frame [simp]:
  "clients (emit c p n w) = clients w"
  "currentFile (emit c p n w) = currentFile w"
  "statusOutput (emit c p n w) = statusOutput w"
  "obsRequests (emit c p n w) = obsRequests w"
  "armedTimer (emit c p n w) = armedTimer w"
  "pendingEnds (emit c p n w) = pendingEnds w"
  "patches (emit c p n w) = patches w"
  "emitted (emit c p n w) = emitted w @ [\<lparr> frameCommand = c, framePayload = take n p \<rparr>]"
  by (simp_all add: emit_def)

lemma onFileStateChange_frame [simp]:
  "clients (onFileStateChange w) = clients w"
  "currentFile (onFileStateChange w) = currentFile w"
  "statusOutput (onFileStateChange w) = statusOutput w"
  "obsRequests (onFileStateChange w) = obsRequests w"
  "armedTimer (onFileStateChange w) = armedTimer w"
  "pendingEnds (onFileStateChange w) = pendingEnds w"
  "patches (onFileStateChange w) = patches w"
  "emitted (onFileStateChange w) = emitted w"
  by (simp_all add: onFileStateChange_def)






subsection \<open>The relay\<close>




subsection \<open>Pulses before the threshold is reached\<close>



lemma indicator_simps [simp]:
  "indicator (writeCommand c p n w) = indicator w"
  "indicator (emit c p n w) = indicator w"
  "indicator (onFileStateChange w) = indicator w"
  "indicator (initializeNewGame w) = indicator w"
  "indicator (w\<lparr>currentFile := cf\<rparr>) = indicator w"
  "indicator (w\<lparr>currentFile := cf, pendingEnds := pe\<rparr>) = indicator w"
  "indicator (w\<lparr>currentFile := cf, clients := cs\<rparr>) = indicator w"
  by (simp_all add: indicator_def initializeNewGame_other)










subsection \<open>An invariant of the recording\<close>

lemma frameBytes_append [simp]:
  "frameBytes (xs @ ys) = frameBytes xs + frameBytes ys"
  by (induction xs rule: frameBytes.induct) simp_all

lemma countUpdates_append [simp]:
  "countUpdates p c (xs @ ys) = countUpdates p c xs + countUpdates p c ys"
  by (simp add: countUpdates_def)

lemma countUpdates_simps [simp]:
  "countUpdates p c [] = 0"
  "countUpdates p c [call] = (if isUpdateOf p c call then 1 else 0)"
  by (simp_all add: countUpdates_def)





lemma recordingInv_currentFile:
  "currentFile w1 = currentFile w \<Longrightarrow> recordingInv w1 = recordingInv w"
  by (simp add: recordingInv_def usageOf_def split: option.splits)




lemma recordingInv_emit [simp]:
  "recordingInv (emit c p n w) = recordingInv w"
  by (rule recordingInv_currentFile) simp

lemma recordingInv_handleStatusOutput [simp]:
  "recordingInv (handleStatusOutput t w) = recordingInv w"
  by (rule recordingInv_currentFile) simp

lemma recordingInv_onFileStateChange [simp]:
  "recordingInv (onFileStateChange w) = recordingInv w"
  by (rule recordingInv_currentFile) simp

lemma recordingInv_cleared [simp]:
  "recordingInv (w\<lparr>currentFile := getClearedCurrentFile\<rparr>)"
  by (simp add: recordingInv_def getClearedCurrentFile_def)

lemma isUpdateOf_other:
  "command \<noteq> CMD_RECEIVE_POST_FRAME_UPDATE \<Longrightarrow> \<not> isUpdateOf p c (WriteFrame command n payload)"
  by simp

lemma readPostFrameUpdate_Nil [simp]:
  "readPostFrameUpdate [] = Inl RangeError"
  by (simp add: readPostFrameUpdate_def getInt32_def getUint32_def)

lemma isUpdateOf_empty:
  "\<not> isUpdateOf p c (WriteFrame command n (take 0 payloadPtr))"
  by simp













subsection \<open>Frames are written whole\<close>







lemma exactInv_stream:
  "writeStream (currentFile w1) = writeStream (currentFile w) \<Longrightarrow> exactInv w1 = exactInv w"
  by (simp add: exactInv_def)






subsection \<open>The length patched into the file\<close>








subsection \<open>Character usage\<close>







subsection \<open>Cutting a delivery\<close>

text \<open>
  Claim C1 on the code. The keep-alive token is recognised only when its five bytes are in
  the data at hand. Delivered whole after a handshake, the token is skipped; cut after
  \<open>HE\<close>, its bytes are dispatched as five commands without payload and written to the
  file. A delivery that ends right after the command byte of a handshake raises
  \<open>RangeError\<close>.
\<close>

theorem keep_alive_split_changes_frames:
  "splitHead @ splitTail = [0x35, 1] @ keepAlive
   \<and> emitted (fst (handleData (splitHead @ splitTail) exampleWriter))
       = [\<lparr> frameCommand = 0x35, framePayload = [1] \<rparr>]
   \<and> bytesWritten (currentFile (fst (handleData (splitHead @ splitTail) exampleWriter))) = 2
   \<and> emitted (fst (handleData splitTail (fst (handleData splitHead exampleWriter))))
       = [\<lparr> frameCommand = 0x35, framePayload = [1] \<rparr>,
          \<lparr> frameCommand = 0x48, framePayload = [] \<rparr>,
          \<lparr> frameCommand = 0x45, framePayload = [] \<rparr>,
          \<lparr> frameCommand = 0x4C, framePayload = [] \<rparr>,
          \<lparr> frameCommand = 0x4F, framePayload = [] \<rparr>,
          \<lparr> frameCommand = 0x00, framePayload = [] \<rparr>]
   \<and> bytesWritten (currentFile (fst (handleData splitTail (fst (handleData splitHead exampleWriter)))))
       = 7
   \<and> snd (handleData [0x35] exampleWriter) = Inl RangeError"
  by (simp add: splitHead_def splitTail_def eval_defs)

end
